theory Spec2Isabelle
  imports Main
begin

section \<open>JavaScript values and objects\<close>

text \<open>
  The file \<^verbatim>\<open>implementors/core/marker/trait.Freeze.js\<close> is one immediately invoked
  function. It builds an object \<^verbatim>\<open>implementors\<close> by seven property assignments of
  array literals and then either passes it to \<^verbatim>\<open>window.register_implementors\<close> or
  stores it in \<^verbatim>\<open>window.pending_implementors\<close>.

  JavaScript values are untyped, so the model keeps them untyped too: an object is its
  list of own properties in insertion order, an array is the list of its elements. A
  function value is a reference \<open>Function f\<close>; what the function does when called is
  given by the host (see \<open>behaviour\<close> below). Numbers are restricted to the integers
  and \<open>NaN\<close>, which is all that the truthiness test distinguishes.
\<close>

datatype jsval =
    Undefined
  | Null
  | Boolean bool
  | Number int
  | NaN
  | Str string
  | Function nat
  | Array "jsval list"
  | Object "(string \<times> jsval) list"

type_synonym props = "(string \<times> jsval) list"

text \<open>ToBoolean, the conversion applied by \<^verbatim>\<open>if (...)\<close>.\<close>

fun truthy :: "jsval \<Rightarrow> bool" where
  "truthy Undefined = False"
| "truthy Null = False"
| "truthy (Boolean b) = b"
| "truthy (Number n) = (n \<noteq> 0)"
| "truthy NaN = False"
| "truthy (Str s) = (s \<noteq> [])"
| "truthy (Function f) = True"
| "truthy (Array xs) = True"
| "truthy (Object ps) = True"

text \<open>Reading a property: an absent property reads as \<^verbatim>\<open>undefined\<close>.\<close>

fun get_prop :: "props \<Rightarrow> string \<Rightarrow> jsval" where
  "get_prop [] k = Undefined"
| "get_prop ((k', v) # ps) k = (if k' = k then v else get_prop ps k)"

text \<open>
  Assigning a property: an existing property is overwritten in place, a new one is
  appended.
\<close>

fun put_prop :: "string \<Rightarrow> jsval \<Rightarrow> props \<Rightarrow> props" where
  "put_prop k v [] = [(k, v)]"
| "put_prop k v ((k', v') # ps) =
     (if k' = k then (k, v) # ps else (k', v') # put_prop k v ps)"

section \<open>The array literals\<close>

text \<open>
  One constant for each array literal of the file, element by element. The strings are
  the JavaScript string values: the escape \<^verbatim>\<open>\"\<close> of the source stands for the
  character \<^verbatim>\<open>"\<close>; character entities such as \<^verbatim>\<open>&lt;\<close> are plain characters of the string.
\<close>

definition actix_files_impls :: jsval where
  "actix_files_impls = Array [
    Object [(''text'', Str ''impl Freeze for Directory''), (''synthetic'', Boolean True), (''types'', Array [])],
    Object [(''text'', Str ''impl Freeze for Files''), (''synthetic'', Boolean True), (''types'', Array [])],
    Object [(''text'', Str ''impl Freeze for NamedFile''), (''synthetic'', Boolean True), (''types'', Array [])],
    Object [(''text'', Str ''impl Freeze for HttpRange''), (''synthetic'', Boolean True), (''types'', Array [])],
    Object [(''text'', Str ''impl Freeze for FilesService''), (''synthetic'', Boolean True), (''types'', Array [])]]"

definition actix_http_impls :: jsval where
  "actix_http_impls = Array [
    Object [(''text'', Str ''impl&lt;T, S, X, U&gt; Freeze for HttpServiceBuilder&lt;T, S, X, U&gt; <span class=\"where fmt-newline\">where<br>&nbsp;&nbsp;&nbsp;&nbsp;U: Freeze,<br>&nbsp;&nbsp;&nbsp;&nbsp;X: Freeze,&nbsp;</span>''), (''synthetic'', Boolean True), (''types'', Array [])],
    Object [(''text'', Str ''impl Freeze for ServiceConfig''), (''synthetic'', Boolean True), (''types'', Array [])],
    Object [(''text'', Str ''impl Freeze for Extensions''), (''synthetic'', Boolean True), (''types'', Array [])],
    Object [(''text'', Str ''impl&lt;T&gt; Freeze for Message&lt;T&gt;''), (''synthetic'', Boolean True), (''types'', Array [])],
    Object [(''text'', Str ''impl !Freeze for RequestHead''), (''synthetic'', Boolean True), (''types'', Array [])],
    Object [(''text'', Str ''impl !Freeze for ResponseHead''), (''synthetic'', Boolean True), (''types'', Array [])],
    Object [(''text'', Str ''impl&lt;P&gt; Freeze for Request&lt;P&gt; <span class=\"where fmt-newline\">where<br>&nbsp;&nbsp;&nbsp;&nbsp;P: Freeze,&nbsp;</span>''), (''synthetic'', Boolean True), (''types'', Array [])],
    Object [(''text'', Str ''impl&lt;B&nbsp;=&nbsp;Body&gt; !Freeze for Response&lt;B&gt;''), (''synthetic'', Boolean True), (''types'', Array [])],
    Object [(''text'', Str ''impl Freeze for ResponseBuilder''), (''synthetic'', Boolean True), (''types'', Array [])],
    Object [(''text'', Str ''impl&lt;T, S, B, X, U&gt; Freeze for HttpService&lt;T, S, B, X, U&gt; <span class=\"where fmt-newline\">where<br>&nbsp;&nbsp;&nbsp;&nbsp;S: Freeze,<br>&nbsp;&nbsp;&nbsp;&nbsp;U: Freeze,<br>&nbsp;&nbsp;&nbsp;&nbsp;X: Freeze,&nbsp;</span>''), (''synthetic'', Boolean True), (''types'', Array [])],
    Object [(''text'', Str ''impl Freeze for KeepAlive''), (''synthetic'', Boolean True), (''types'', Array [])],
    Object [(''text'', Str ''impl !Freeze for RequestHeadType''), (''synthetic'', Boolean True), (''types'', Array [])],
    Object [(''text'', Str ''impl&lt;S&gt; Freeze for Payload&lt;S&gt; <span class=\"where fmt-newline\">where<br>&nbsp;&nbsp;&nbsp;&nbsp;S: Freeze,&nbsp;</span>''), (''synthetic'', Boolean True), (''types'', Array [])],
    Object [(''text'', Str ''impl Freeze for Protocol''), (''synthetic'', Boolean True), (''types'', Array [])],
    Object [(''text'', Str ''impl&lt;S, E&gt; Freeze for BodyStream&lt;S, E&gt; <span class=\"where fmt-newline\">where<br>&nbsp;&nbsp;&nbsp;&nbsp;S: Freeze,&nbsp;</span>''), (''synthetic'', Boolean True), (''types'', Array [])],
    Object [(''text'', Str ''impl&lt;S&gt; Freeze for SizedStream&lt;S&gt; <span class=\"where fmt-newline\">where<br>&nbsp;&nbsp;&nbsp;&nbsp;S: Freeze,&nbsp;</span>''), (''synthetic'', Boolean True), (''types'', Array [])],
    Object [(''text'', Str ''impl Freeze for BodySize''), (''synthetic'', Boolean True), (''types'', Array [])],
    Object [(''text'', Str ''impl&lt;B&gt; !Freeze for ResponseBody&lt;B&gt;''), (''synthetic'', Boolean True), (''types'', Array [])],
    Object [(''text'', Str ''impl !Freeze for Body''), (''synthetic'', Boolean True), (''types'', Array [])],
    Object [(''text'', Str ''impl&lt;T, U&gt; Freeze for Connector&lt;T, U&gt; <span class=\"where fmt-newline\">where<br>&nbsp;&nbsp;&nbsp;&nbsp;T: Freeze,&nbsp;</span>''), (''synthetic'', Boolean True), (''types'', Array [])],
    Object [(''text'', Str ''impl !Freeze for Connect''), (''synthetic'', Boolean True), (''types'', Array [])],
    Object [(''text'', Str ''impl Freeze for ConnectError''), (''synthetic'', Boolean True), (''types'', Array [])],
    Object [(''text'', Str ''impl Freeze for FreezeRequestError''), (''synthetic'', Boolean True), (''types'', Array [])],
    Object [(''text'', Str ''impl Freeze for InvalidUrl''), (''synthetic'', Boolean True), (''types'', Array [])],
    Object [(''text'', Str ''impl Freeze for SendRequestError''), (''synthetic'', Boolean True), (''types'', Array [])],
    Object [(''text'', Str ''impl Freeze for Protocol''), (''synthetic'', Boolean True), (''types'', Array [])],
    Object [(''text'', Str ''impl&lt;S&gt; Freeze for Decoder&lt;S&gt; <span class=\"where fmt-newline\">where<br>&nbsp;&nbsp;&nbsp;&nbsp;S: Freeze,&nbsp;</span>''), (''synthetic'', Boolean True), (''types'', Array [])],
    Object [(''text'', Str ''impl&lt;B&gt; !Freeze for Encoder&lt;B&gt;''), (''synthetic'', Boolean True), (''types'', Array [])],
    Object [(''text'', Str ''impl Freeze for ExtendedValue''), (''synthetic'', Boolean True), (''types'', Array [])],
    Object [(''text'', Str ''impl Freeze for ContentEncoding''), (''synthetic'', Boolean True), (''types'', Array [])],
    Object [(''text'', Str ''impl Freeze for AcceptCharset''), (''synthetic'', Boolean True), (''types'', Array [])],
    Object [(''text'', Str ''impl Freeze for Accept''), (''synthetic'', Boolean True), (''types'', Array [])],
    Object [(''text'', Str ''impl Freeze for AcceptLanguage''), (''synthetic'', Boolean True), (''types'', Array [])],
    Object [(''text'', Str ''impl Freeze for Allow''), (''synthetic'', Boolean True), (''types'', Array [])],
    Object [(''text'', Str ''impl Freeze for CacheControl''), (''synthetic'', Boolean True), (''types'', Array [])],
    Object [(''text'', Str ''impl Freeze for CacheDirective''), (''synthetic'', Boolean True), (''types'', Array [])],
    Object [(''text'', Str ''impl Freeze for ContentDisposition''), (''synthetic'', Boolean True), (''types'', Array [])],
    Object [(''text'', Str ''impl Freeze for DispositionType''), (''synthetic'', Boolean True), (''types'', Array [])],
    Object [(''text'', Str ''impl Freeze for DispositionParam''), (''synthetic'', Boolean True), (''types'', Array [])],
    Object [(''text'', Str ''impl Freeze for ContentLanguage''), (''synthetic'', Boolean True), (''types'', Array [])],
    Object [(''text'', Str ''impl Freeze for ContentRange''), (''synthetic'', Boolean True), (''types'', Array [])],
    Object [(''text'', Str ''impl Freeze for ContentRangeSpec''), (''synthetic'', Boolean True), (''types'', Array [])],
    Object [(''text'', Str ''impl Freeze for ContentType''), (''synthetic'', Boolean True), (''types'', Array [])],
    Object [(''text'', Str ''impl Freeze for Date''), (''synthetic'', Boolean True), (''types'', Array [])],
    Object [(''text'', Str ''impl Freeze for ETag''), (''synthetic'', Boolean True), (''types'', Array [])],
    Object [(''text'', Str ''impl Freeze for Expires''), (''synthetic'', Boolean True), (''types'', Array [])],
    Object [(''text'', Str ''impl Freeze for IfMatch''), (''synthetic'', Boolean True), (''types'', Array [])],
    Object [(''text'', Str ''impl Freeze for IfModifiedSince''), (''synthetic'', Boolean True), (''types'', Array [])],
    Object [(''text'', Str ''impl Freeze for IfNoneMatch''), (''synthetic'', Boolean True), (''types'', Array [])],
    Object [(''text'', Str ''impl Freeze for IfRange''), (''synthetic'', Boolean True), (''types'', Array [])],
    Object [(''text'', Str ''impl Freeze for IfUnmodifiedSince''), (''synthetic'', Boolean True), (''types'', Array [])],
    Object [(''text'', Str ''impl Freeze for LastModified''), (''synthetic'', Boolean True), (''types'', Array [])],
    Object [(''text'', Str ''impl Freeze for HeaderMap''), (''synthetic'', Boolean True), (''types'', Array [])],
    Object [(''text'', Str ''impl Freeze for ConnectionType''), (''synthetic'', Boolean True), (''types'', Array [])],
    Object [(''text'', Str ''impl Freeze for Error''), (''synthetic'', Boolean True), (''types'', Array [])],
    Object [(''text'', Str ''impl&lt;T&gt; !Freeze for InternalError&lt;T&gt;''), (''synthetic'', Boolean True), (''types'', Array [])],
    Object [(''text'', Str ''impl Freeze for ParseError''), (''synthetic'', Boolean True), (''types'', Array [])],
    Object [(''text'', Str ''impl Freeze for PayloadError''), (''synthetic'', Boolean True), (''types'', Array [])],
    Object [(''text'', Str ''impl Freeze for DispatchError''), (''synthetic'', Boolean True), (''types'', Array [])],
    Object [(''text'', Str ''impl Freeze for ContentTypeError''), (''synthetic'', Boolean True), (''types'', Array [])],
    Object [(''text'', Str ''impl Freeze for ClientCodec''), (''synthetic'', Boolean True), (''types'', Array [])],
    Object [(''text'', Str ''impl Freeze for ClientPayloadCodec''), (''synthetic'', Boolean True), (''types'', Array [])],
    Object [(''text'', Str ''impl Freeze for Codec''), (''synthetic'', Boolean True), (''types'', Array [])],
    Object [(''text'', Str ''impl&lt;T, S, B, X, U&gt; !Freeze for Dispatcher&lt;T, S, B, X, U&gt;''), (''synthetic'', Boolean True), (''types'', Array [])],
    Object [(''text'', Str ''impl Freeze for ExpectHandler''), (''synthetic'', Boolean True), (''types'', Array [])],
    Object [(''text'', Str ''impl Freeze for Payload''), (''synthetic'', Boolean True), (''types'', Array [])],
    Object [(''text'', Str ''impl&lt;T, S, B, X, U&gt; Freeze for H1Service&lt;T, S, B, X, U&gt; <span class=\"where fmt-newline\">where<br>&nbsp;&nbsp;&nbsp;&nbsp;S: Freeze,<br>&nbsp;&nbsp;&nbsp;&nbsp;U: Freeze,<br>&nbsp;&nbsp;&nbsp;&nbsp;X: Freeze,&nbsp;</span>''), (''synthetic'', Boolean True), (''types'', Array [])],
    Object [(''text'', Str ''impl&lt;T, S, B, X, U&gt; Freeze for H1ServiceHandler&lt;T, S, B, X, U&gt;''), (''synthetic'', Boolean True), (''types'', Array [])],
    Object [(''text'', Str ''impl&lt;T&gt; Freeze for OneRequest&lt;T&gt;''), (''synthetic'', Boolean True), (''types'', Array [])],
    Object [(''text'', Str ''impl&lt;T&gt; Freeze for UpgradeHandler&lt;T&gt;''), (''synthetic'', Boolean True), (''types'', Array [])],
    Object [(''text'', Str ''impl&lt;T, B&gt; !Freeze for SendResponse&lt;T, B&gt;''), (''synthetic'', Boolean True), (''types'', Array [])],
    Object [(''text'', Str ''impl&lt;T&gt; !Freeze for Message&lt;T&gt;''), (''synthetic'', Boolean True), (''types'', Array [])],
    Object [(''text'', Str ''impl Freeze for MessageType''), (''synthetic'', Boolean True), (''types'', Array [])],
    Object [(''text'', Str ''impl&lt;T, S, B&gt; !Freeze for Dispatcher&lt;T, S, B&gt;''), (''synthetic'', Boolean True), (''types'', Array [])],
    Object [(''text'', Str ''impl&lt;T, S, B&gt; Freeze for H2Service&lt;T, S, B&gt; <span class=\"where fmt-newline\">where<br>&nbsp;&nbsp;&nbsp;&nbsp;S: Freeze,&nbsp;</span>''), (''synthetic'', Boolean True), (''types'', Array [])],
    Object [(''text'', Str ''impl Freeze for Payload''), (''synthetic'', Boolean True), (''types'', Array [])],
    Object [(''text'', Str ''impl !Freeze for TestRequest''), (''synthetic'', Boolean True), (''types'', Array [])],
    Object [(''text'', Str ''impl Freeze for TestBuffer''), (''synthetic'', Boolean True), (''types'', Array [])],
    Object [(''text'', Str ''impl Freeze for Codec''), (''synthetic'', Boolean True), (''types'', Array [])],
    Object [(''text'', Str ''impl&lt;S, T&gt; Freeze for Dispatcher&lt;S, T&gt; <span class=\"where fmt-newline\">where<br>&nbsp;&nbsp;&nbsp;&nbsp;S: Freeze,<br>&nbsp;&nbsp;&nbsp;&nbsp;T: Freeze,<br>&nbsp;&nbsp;&nbsp;&nbsp;&lt;S as Service&gt;::Error: Freeze,&nbsp;</span>''), (''synthetic'', Boolean True), (''types'', Array [])],
    Object [(''text'', Str ''impl Freeze for Parser''), (''synthetic'', Boolean True), (''types'', Array [])],
    Object [(''text'', Str ''impl Freeze for CloseReason''), (''synthetic'', Boolean True), (''types'', Array [])],
    Object [(''text'', Str ''impl !Freeze for Frame''), (''synthetic'', Boolean True), (''types'', Array [])],
    Object [(''text'', Str ''impl !Freeze for Item''), (''synthetic'', Boolean True), (''types'', Array [])],
    Object [(''text'', Str ''impl !Freeze for Message''), (''synthetic'', Boolean True), (''types'', Array [])],
    Object [(''text'', Str ''impl Freeze for CloseCode''), (''synthetic'', Boolean True), (''types'', Array [])],
    Object [(''text'', Str ''impl Freeze for OpCode''), (''synthetic'', Boolean True), (''types'', Array [])],
    Object [(''text'', Str ''impl Freeze for ProtocolError''), (''synthetic'', Boolean True), (''types'', Array [])],
    Object [(''text'', Str ''impl Freeze for HandshakeError''), (''synthetic'', Boolean True), (''types'', Array [])]]"

definition actix_http_test_impls :: jsval where
  "actix_http_test_impls = Array [
    Object [(''text'', Str ''impl Freeze for TestServer''), (''synthetic'', Boolean True), (''types'', Array [])]]"

definition actix_multipart_impls :: jsval where
  "actix_multipart_impls = Array [
    Object [(''text'', Str ''impl !Freeze for Field''), (''synthetic'', Boolean True), (''types'', Array [])],
    Object [(''text'', Str ''impl !Freeze for Multipart''), (''synthetic'', Boolean True), (''types'', Array [])],
    Object [(''text'', Str ''impl Freeze for MultipartError''), (''synthetic'', Boolean True), (''types'', Array [])]]"

definition actix_web_impls :: jsval where
  "actix_web_impls = Array [
    Object [(''text'', Str ''impl&lt;T, B&gt; Freeze for App&lt;T, B&gt; <span class=\"where fmt-newline\">where<br>&nbsp;&nbsp;&nbsp;&nbsp;T: Freeze,&nbsp;</span>''), (''synthetic'', Boolean True), (''types'', Array [])],
    Object [(''text'', Str ''impl Freeze for HttpRequest''), (''synthetic'', Boolean True), (''types'', Array [])],
    Object [(''text'', Str ''impl&lt;T&gt; Freeze for Resource&lt;T&gt; <span class=\"where fmt-newline\">where<br>&nbsp;&nbsp;&nbsp;&nbsp;T: Freeze,&nbsp;</span>''), (''synthetic'', Boolean True), (''types'', Array [])],
    Object [(''text'', Str ''impl Freeze for Route''), (''synthetic'', Boolean True), (''types'', Array [])],
    Object [(''text'', Str ''impl&lt;T&gt; Freeze for Scope&lt;T&gt; <span class=\"where fmt-newline\">where<br>&nbsp;&nbsp;&nbsp;&nbsp;T: Freeze,&nbsp;</span>''), (''synthetic'', Boolean True), (''types'', Array [])],
    Object [(''text'', Str ''impl&lt;F, I, S, B&gt; !Freeze for HttpServer&lt;F, I, S, B&gt;''), (''synthetic'', Boolean True), (''types'', Array [])],
    Object [(''text'', Str ''impl&lt;A, B&gt; Freeze for Either&lt;A, B&gt; <span class=\"where fmt-newline\">where<br>&nbsp;&nbsp;&nbsp;&nbsp;A: Freeze,<br>&nbsp;&nbsp;&nbsp;&nbsp;B: Freeze,&nbsp;</span>''), (''synthetic'', Boolean True), (''types'', Array [])],
    Object [(''text'', Str ''impl Freeze for AppService''), (''synthetic'', Boolean True), (''types'', Array [])],
    Object [(''text'', Str ''impl Freeze for AppConfig''), (''synthetic'', Boolean True), (''types'', Array [])],
    Object [(''text'', Str ''impl Freeze for ServiceConfig''), (''synthetic'', Boolean True), (''types'', Array [])],
    Object [(''text'', Str ''impl&lt;T:&nbsp;?Sized&gt; Freeze for Data&lt;T&gt;''), (''synthetic'', Boolean True), (''types'', Array [])],
    Object [(''text'', Str ''impl Freeze for UrlGenerationError''), (''synthetic'', Boolean True), (''types'', Array [])],
    Object [(''text'', Str ''impl Freeze for UrlencodedError''), (''synthetic'', Boolean True), (''types'', Array [])],
    Object [(''text'', Str ''impl Freeze for JsonPayloadError''), (''synthetic'', Boolean True), (''types'', Array [])],
    Object [(''text'', Str ''impl Freeze for PathError''), (''synthetic'', Boolean True), (''types'', Array [])],
    Object [(''text'', Str ''impl Freeze for QueryPayloadError''), (''synthetic'', Boolean True), (''types'', Array [])],
    Object [(''text'', Str ''impl Freeze for ReadlinesError''), (''synthetic'', Boolean True), (''types'', Array [])],
    Object [(''text'', Str ''impl Freeze for AnyGuard''), (''synthetic'', Boolean True), (''types'', Array [])],
    Object [(''text'', Str ''impl Freeze for AllGuard''), (''synthetic'', Boolean True), (''types'', Array [])],
    Object [(''text'', Str ''impl Freeze for ConnectionInfo''), (''synthetic'', Boolean True), (''types'', Array [])],
    Object [(''text'', Str ''impl Freeze for Compress''), (''synthetic'', Boolean True), (''types'', Array [])],
    Object [(''text'', Str ''impl&lt;T&gt; Freeze for Condition&lt;T&gt; <span class=\"where fmt-newline\">where<br>&nbsp;&nbsp;&nbsp;&nbsp;T: Freeze,&nbsp;</span>''), (''synthetic'', Boolean True), (''types'', Array [])],
    Object [(''text'', Str ''impl Freeze for DefaultHeaders''), (''synthetic'', Boolean True), (''types'', Array [])],
    Object [(''text'', Str ''impl Freeze for Logger''), (''synthetic'', Boolean True), (''types'', Array [])],
    Object [(''text'', Str ''impl&lt;B&gt; Freeze for ErrorHandlers&lt;B&gt;''), (''synthetic'', Boolean True), (''types'', Array [])],
    Object [(''text'', Str ''impl&lt;B&gt; !Freeze for ErrorHandlerResponse&lt;B&gt;''), (''synthetic'', Boolean True), (''types'', Array [])],
    Object [(''text'', Str ''impl Freeze for NormalizePath''), (''synthetic'', Boolean True), (''types'', Array [])],
    Object [(''text'', Str ''impl Freeze for TrailingSlash''), (''synthetic'', Boolean True), (''types'', Array [])],
    Object [(''text'', Str ''impl&lt;T&gt; Freeze for ReqData&lt;T&gt; <span class=\"where fmt-newline\">where<br>&nbsp;&nbsp;&nbsp;&nbsp;T: Freeze,&nbsp;</span>''), (''synthetic'', Boolean True), (''types'', Array [])],
    Object [(''text'', Str ''impl !Freeze for ResourceMap''), (''synthetic'', Boolean True), (''types'', Array [])],
    Object [(''text'', Str ''impl Freeze for ServiceRequest''), (''synthetic'', Boolean True), (''types'', Array [])],
    Object [(''text'', Str ''impl&lt;B&nbsp;=&nbsp;Body&gt; !Freeze for ServiceResponse&lt;B&gt;''), (''synthetic'', Boolean True), (''types'', Array [])],
    Object [(''text'', Str ''impl Freeze for WebService''), (''synthetic'', Boolean True), (''types'', Array [])],
    Object [(''text'', Str ''impl !Freeze for TestRequest''), (''synthetic'', Boolean True), (''types'', Array [])],
    Object [(''text'', Str ''impl Freeze for TestServerConfig''), (''synthetic'', Boolean True), (''types'', Array [])],
    Object [(''text'', Str ''impl Freeze for TestServer''), (''synthetic'', Boolean True), (''types'', Array [])],
    Object [(''text'', Str ''impl&lt;T&gt; Freeze for Form&lt;T&gt; <span class=\"where fmt-newline\">where<br>&nbsp;&nbsp;&nbsp;&nbsp;T: Freeze,&nbsp;</span>''), (''synthetic'', Boolean True), (''types'', Array [])],
    Object [(''text'', Str ''impl Freeze for FormConfig''), (''synthetic'', Boolean True), (''types'', Array [])],
    Object [(''text'', Str ''impl&lt;U&gt; Freeze for UrlEncoded&lt;U&gt;''), (''synthetic'', Boolean True), (''types'', Array [])],
    Object [(''text'', Str ''impl&lt;T&gt; Freeze for Json&lt;T&gt; <span class=\"where fmt-newline\">where<br>&nbsp;&nbsp;&nbsp;&nbsp;T: Freeze,&nbsp;</span>''), (''synthetic'', Boolean True), (''types'', Array [])],
    Object [(''text'', Str ''impl Freeze for JsonConfig''), (''synthetic'', Boolean True), (''types'', Array [])],
    Object [(''text'', Str ''impl&lt;U&gt; Freeze for JsonBody&lt;U&gt;''), (''synthetic'', Boolean True), (''types'', Array [])],
    Object [(''text'', Str ''impl&lt;T&gt; Freeze for Path&lt;T&gt; <span class=\"where fmt-newline\">where<br>&nbsp;&nbsp;&nbsp;&nbsp;T: Freeze,&nbsp;</span>''), (''synthetic'', Boolean True), (''types'', Array [])],
    Object [(''text'', Str ''impl Freeze for PathConfig''), (''synthetic'', Boolean True), (''types'', Array [])],
    Object [(''text'', Str ''impl Freeze for Payload''), (''synthetic'', Boolean True), (''types'', Array [])],
    Object [(''text'', Str ''impl Freeze for PayloadConfig''), (''synthetic'', Boolean True), (''types'', Array [])],
    Object [(''text'', Str ''impl&lt;T&gt; Freeze for Query&lt;T&gt; <span class=\"where fmt-newline\">where<br>&nbsp;&nbsp;&nbsp;&nbsp;T: Freeze,&nbsp;</span>''), (''synthetic'', Boolean True), (''types'', Array [])],
    Object [(''text'', Str ''impl Freeze for QueryConfig''), (''synthetic'', Boolean True), (''types'', Array [])],
    Object [(''text'', Str ''impl&lt;T&gt; Freeze for Readlines&lt;T&gt; <span class=\"where fmt-newline\">where<br>&nbsp;&nbsp;&nbsp;&nbsp;&lt;T as HttpMessage&gt;::Stream: Freeze,&nbsp;</span>''), (''synthetic'', Boolean True), (''types'', Array [])]]"

definition actix_web_actors_impls :: jsval where
  "actix_web_actors_impls = Array [
    Object [(''text'', Str ''impl&lt;A&gt; Freeze for HttpContext&lt;A&gt;''), (''synthetic'', Boolean True), (''types'', Array [])],
    Object [(''text'', Str ''impl&lt;A&gt; Freeze for WebsocketContext&lt;A&gt;''), (''synthetic'', Boolean True), (''types'', Array [])]]"

definition awc_impls :: jsval where
  "awc_impls = Array [
    Object [(''text'', Str ''impl !Freeze for ClientBuilder''), (''synthetic'', Boolean True), (''types'', Array [])],
    Object [(''text'', Str ''impl Freeze for BoxedSocket''), (''synthetic'', Boolean True), (''types'', Array [])],
    Object [(''text'', Str ''impl Freeze for FrozenClientRequest''), (''synthetic'', Boolean True), (''types'', Array [])],
    Object [(''text'', Str ''impl Freeze for FrozenSendBuilder''), (''synthetic'', Boolean True), (''types'', Array [])],
    Object [(''text'', Str ''impl !Freeze for ClientRequest''), (''synthetic'', Boolean True), (''types'', Array [])],
    Object [(''text'', Str ''impl&lt;S&nbsp;=&nbsp;Pin&lt;Box&lt;dyn Stream&lt;Item = Result&lt;Bytes, PayloadError&gt;&gt; + 'static, Global&gt;&gt;&gt; !Freeze for ClientResponse&lt;S&gt;''), (''synthetic'', Boolean True), (''types'', Array [])],
    Object [(''text'', Str ''impl&lt;S, U&gt; Freeze for JsonBody&lt;S, U&gt; <span class=\"where fmt-newline\">where<br>&nbsp;&nbsp;&nbsp;&nbsp;S: Freeze,&nbsp;</span>''), (''synthetic'', Boolean True), (''types'', Array [])],
    Object [(''text'', Str ''impl&lt;S&gt; Freeze for MessageBody&lt;S&gt; <span class=\"where fmt-newline\">where<br>&nbsp;&nbsp;&nbsp;&nbsp;S: Freeze,&nbsp;</span>''), (''synthetic'', Boolean True), (''types'', Array [])],
    Object [(''text'', Str ''impl Freeze for Client''), (''synthetic'', Boolean True), (''types'', Array [])],
    Object [(''text'', Str ''impl Freeze for SendClientRequest''), (''synthetic'', Boolean True), (''types'', Array [])],
    Object [(''text'', Str ''impl !Freeze for WsClientError''), (''synthetic'', Boolean True), (''types'', Array [])],
    Object [(''text'', Str ''impl Freeze for JsonPayloadError''), (''synthetic'', Boolean True), (''types'', Array [])],
    Object [(''text'', Str ''impl !Freeze for TestResponse''), (''synthetic'', Boolean True), (''types'', Array [])],
    Object [(''text'', Str ''impl !Freeze for WebsocketsRequest''), (''synthetic'', Boolean True), (''types'', Array [])]]"

section \<open>The script\<close>

text \<open>
  The object \<^verbatim>\<open>implementors\<close>: it starts empty (\<^verbatim>\<open>var implementors = {};\<close>) and
  receives the seven assignments \<^verbatim>\<open>implementors["..."] = [...]\<close> in the order of the
  file.
\<close>

definition implementors :: props where
  "implementors =
     fold (\<lambda>(k, v). put_prop k v)
       [(''actix_files'', actix_files_impls),
        (''actix_http'', actix_http_impls),
        (''actix_http_test'', actix_http_test_impls),
        (''actix_multipart'', actix_multipart_impls),
        (''actix_web'', actix_web_impls),
        (''actix_web_actors'', actix_web_actors_impls),
        (''awc'', awc_impls)]
       []"

text \<open>
  The host environment. \<open>window\<close> is the list of properties of the global
  \<^verbatim>\<open>window\<close> object, or \<open>None\<close> where no such global exists (the identifier then
  fails to resolve). \<open>behaviour h f arg w\<close> is what calling the function \<open>f\<close> with
  argument \<open>arg\<close> does when the window has the properties \<open>w\<close>: how the call completes
  and the properties of the window afterwards. The properties of the window are plain
  data properties: reading one has no effect and an assignment stores the value. A host
  function returns or throws; the script has no loop of its own.
\<close>

datatype error = ReferenceError | TypeError | Thrown jsval

datatype completion = Normal | Throw error

record host =
  window :: "props option"
  behaviour :: "nat \<Rightarrow> jsval \<Rightarrow> props \<Rightarrow> completion \<times> props"

text \<open>
  What the script itself does to the outside: it applies the call operation to a value
  with one argument, or it assigns a property of \<^verbatim>\<open>window\<close>.
\<close>

datatype event = Call jsval jsval | Assign string jsval

record outcome =
  completion :: completion
  window_after :: "props option"
  trace :: "event list"

text \<open>
  The call operation \<^verbatim>\<open>callee(arg)\<close>: a value that is not a function cannot be called
  and the operation throws a TypeError, leaving the window as it is; a function runs as
  the host says.
\<close>

fun call_op :: "host \<Rightarrow> jsval \<Rightarrow> jsval \<Rightarrow> props \<Rightarrow> completion \<times> props" where
  "call_op h (Function f) arg w = behaviour h f arg w"
| "call_op h callee arg w = (Throw TypeError, w)"

text \<open>
  The last statement of the file:
  \<^verbatim>\<open>if (window.register_implementors) {window.register_implementors(implementors);}
   else {window.pending_implementors = implementors;}\<close>
\<close>

definition run_script :: "host \<Rightarrow> outcome" where
  "run_script h =
     (case window h of
        None \<Rightarrow> \<lparr>completion = Throw ReferenceError, window_after = None, trace = []\<rparr>
      | Some w \<Rightarrow>
          if truthy (get_prop w ''register_implementors'') then
            (let callee = get_prop w ''register_implementors'';
                 (c, w') = call_op h callee (Object implementors) w
             in \<lparr>completion = c, window_after = Some w',
                 trace = [Call callee (Object implementors)]\<rparr>)
          else
            \<lparr>completion = Normal,
             window_after = Some (put_prop ''pending_implementors'' (Object implementors) w),
             trace = [Assign ''pending_implementors'' (Object implementors)]\<rparr>)"

section \<open>Reading the table and the trace\<close>

text \<open>The elements of an array value; a value that is no array has none.\<close>

fun elements :: "jsval \<Rightarrow> jsval list" where
  "elements (Array xs) = xs"
| "elements v = []"

text \<open>The property \<open>k\<close> of an object value, and the names of its own properties.\<close>

fun field :: "jsval \<Rightarrow> string \<Rightarrow> jsval" where
  "field (Object ps) k = get_prop ps k"
| "field v k = Undefined"

fun own_keys :: "jsval \<Rightarrow> string list" where
  "own_keys (Object ps) = map fst ps"
| "own_keys v = []"

fun is_string :: "jsval \<Rightarrow> bool" where
  "is_string (Str s) = True"
| "is_string v = False"

fun is_boolean :: "jsval \<Rightarrow> bool" where
  "is_boolean (Boolean b) = True"
| "is_boolean v = False"

fun is_array :: "jsval \<Rightarrow> bool" where
  "is_array (Array xs) = True"
| "is_array v = False"

fun is_object :: "jsval \<Rightarrow> bool" where
  "is_object (Object ps) = True"
| "is_object v = False"

text \<open>Substring test on strings, as \<^verbatim>\<open>String.prototype.includes\<close>.\<close>

fun starts_with :: "string \<Rightarrow> string \<Rightarrow> bool" where
  "starts_with s [] = True"
| "starts_with [] (c # p) = False"
| "starts_with (a # s) (c # p) = (a = c \<and> starts_with s p)"

fun str_includes :: "string \<Rightarrow> string \<Rightarrow> bool" where
  "str_includes [] p = (p = [])"
| "str_includes (a # s) p = (starts_with (a # s) p \<or> str_includes s p)"

fun text_includes :: "jsval \<Rightarrow> string \<Rightarrow> bool" where
  "text_includes (Str s) p = str_includes s p"
| "text_includes v p = False"

text \<open>
  An implementor record carries the three fields of the data model: a string
  \<^verbatim>\<open>text\<close>, a boolean \<^verbatim>\<open>synthetic\<close> and an array \<^verbatim>\<open>types\<close>, and nothing else.
\<close>

definition carries_fields :: "jsval \<Rightarrow> bool" where
  "carries_fields r \<longleftrightarrow>
     is_object r \<and> own_keys r = [''text'', ''synthetic'', ''types''] \<and>
     is_string (field r ''text'') \<and> is_boolean (field r ''synthetic'') \<and>
     is_array (field r ''types'')"

text \<open>
  A record about the trait \<^verbatim>\<open>Freeze\<close>: synthetic, without referenced types, and with
  a text that states the trait positively or negated.
\<close>

definition freeze_record :: "jsval \<Rightarrow> bool" where
  "freeze_record r \<longleftrightarrow>
     field r ''synthetic'' = Boolean True \<and> field r ''types'' = Array [] \<and>
     (text_includes (field r ''text'') ''Freeze for'' \<or>
      text_includes (field r ''text'') ''!Freeze for'')"

text \<open>The \<^verbatim>\<open>text\<close> fields of the records of one crate's array, in order.\<close>

definition texts :: "jsval \<Rightarrow> jsval list" where
  "texts v = map (\<lambda>r. field r ''text'') (elements v)"

text \<open>The three texts that the array of \<^verbatim>\<open>actix_http\<close> holds more than once.\<close>

definition repeated_texts :: "jsval list" where
  "repeated_texts =
     [Str ''impl Freeze for Protocol'', Str ''impl Freeze for Codec'',
      Str ''impl Freeze for Payload'']"

text \<open>The value that an event of the script hands to the outside.\<close>

fun payload :: "event \<Rightarrow> jsval" where
  "payload (Call callee arg) = arg"
| "payload (Assign k v) = v"

fun is_call :: "event \<Rightarrow> bool" where
  "is_call (Call callee arg) = True"
| "is_call (Assign k v) = False"

fun is_assign :: "event \<Rightarrow> bool" where
  "is_assign (Call callee arg) = False"
| "is_assign (Assign k v) = True"

text \<open>
  An event that runs a function: the call operation applied to a function value. Applied
  to any other value the operation throws before anything is run.
\<close>

fun invocation :: "event \<Rightarrow> bool" where
  "invocation (Call (Function f) arg) = True"
| "invocation e = False"

section \<open>Some hosts\<close>

text \<open>
  A registration function in the manner of the documentation viewer: it keeps its
  argument in a property of the window and returns.
\<close>

definition keep_argument :: "nat \<Rightarrow> jsval \<Rightarrow> props \<Rightarrow> completion \<times> props" where
  "keep_argument f arg w = (Normal, put_prop ''all_implementors'' arg w)"

text \<open>The viewer was loaded before the file: the registration function exists.\<close>

definition viewer_host :: host where
  "viewer_host =
     \<lparr>window = Some [(''register_implementors'', Function 0)],
      behaviour = keep_argument\<rparr>"

text \<open>
  The file is loaded before the viewer: the window has another property, and no
  registration function yet.
\<close>

definition early_host :: host where
  "early_host =
     \<lparr>window = Some [(''currentCrate'', Str ''actix_http'')],
      behaviour = keep_argument\<rparr>"

text \<open>A window whose \<^verbatim>\<open>register_implementors\<close> is the number 1.\<close>

definition number_host :: host where
  "number_host =
     \<lparr>window = Some [(''register_implementors'', Number 1)],
      behaviour = keep_argument\<rparr>"

text \<open>A window whose \<^verbatim>\<open>register_implementors\<close> is the boolean \<^verbatim>\<open>true\<close>.\<close>

definition flag_host :: host where
  "flag_host =
     \<lparr>window = Some [(''register_implementors'', Boolean True)],
      behaviour = keep_argument\<rparr>"

text \<open>A registration function that throws, and a window that holds it.\<close>

definition always_throws :: "nat \<Rightarrow> jsval \<Rightarrow> props \<Rightarrow> completion \<times> props" where
  "always_throws f arg w = (Throw (Thrown (Str ''not ready'')), w)"

definition throwing_host :: host where
  "throwing_host =
     \<lparr>window = Some [(''register_implementors'', Function 0)],
      behaviour = always_throws\<rparr>"

section \<open>Properties of objects and of the table\<close>

lemma get_prop_put_prop:
  "get_prop (put_prop k v w) k' = (if k' = k then v else get_prop w k')"
  by (induction w) auto

lemma get_prop_absent: "k \<notin> fst ` set w \<Longrightarrow> get_prop w k = Undefined"
  by (induction w) auto

lemma implementors_eq:
  "implementors =
     [(''actix_files'', actix_files_impls),
      (''actix_http'', actix_http_impls),
      (''actix_http_test'', actix_http_test_impls),
      (''actix_multipart'', actix_multipart_impls),
      (''actix_web'', actix_web_impls),
      (''actix_web_actors'', actix_web_actors_impls),
      (''awc'', awc_impls)]"
  by (simp add: implementors_def)

subsection \<open>Each array holds objects\<close>

lemma actix_files_objects:
  "is_array actix_files_impls \<and> list_all is_object (elements actix_files_impls)"
  by (simp add: actix_files_impls_def)

lemma actix_http_objects:
  "is_array actix_http_impls \<and> list_all is_object (elements actix_http_impls)"
  by (simp add: actix_http_impls_def)

lemma actix_http_test_objects:
  "is_array actix_http_test_impls \<and> list_all is_object (elements actix_http_test_impls)"
  by (simp add: actix_http_test_impls_def)

lemma actix_multipart_objects:
  "is_array actix_multipart_impls \<and> list_all is_object (elements actix_multipart_impls)"
  by (simp add: actix_multipart_impls_def)

lemma actix_web_objects:
  "is_array actix_web_impls \<and> list_all is_object (elements actix_web_impls)"
  by (simp add: actix_web_impls_def)

lemma actix_web_actors_objects:
  "is_array actix_web_actors_impls \<and> list_all is_object (elements actix_web_actors_impls)"
  by (simp add: actix_web_actors_impls_def)

lemma awc_objects:
  "is_array awc_impls \<and> list_all is_object (elements awc_impls)"
  by (simp add: awc_impls_def)

lemmas objects = actix_files_objects actix_http_objects actix_http_test_objects
  actix_multipart_objects actix_web_objects actix_web_actors_objects awc_objects

subsection \<open>Each array is non-empty\<close>

lemma actix_files_nonempty: "elements actix_files_impls \<noteq> []"
  by (simp add: actix_files_impls_def)

lemma actix_http_nonempty: "elements actix_http_impls \<noteq> []"
  by (simp add: actix_http_impls_def)

lemma actix_http_test_nonempty: "elements actix_http_test_impls \<noteq> []"
  by (simp add: actix_http_test_impls_def)

lemma actix_multipart_nonempty: "elements actix_multipart_impls \<noteq> []"
  by (simp add: actix_multipart_impls_def)

lemma actix_web_nonempty: "elements actix_web_impls \<noteq> []"
  by (simp add: actix_web_impls_def)

lemma actix_web_actors_nonempty: "elements actix_web_actors_impls \<noteq> []"
  by (simp add: actix_web_actors_impls_def)

lemma awc_nonempty: "elements awc_impls \<noteq> []"
  by (simp add: awc_impls_def)

lemmas nonempty = actix_files_nonempty actix_http_nonempty actix_http_test_nonempty
  actix_multipart_nonempty actix_web_nonempty actix_web_actors_nonempty awc_nonempty

subsection \<open>Each record carries the three fields\<close>

lemma actix_files_fields: "list_all carries_fields (elements actix_files_impls)"
  by (simp add: actix_files_impls_def carries_fields_def)

lemma actix_http_fields: "list_all carries_fields (elements actix_http_impls)"
  by (simp add: actix_http_impls_def carries_fields_def)

lemma actix_http_test_fields: "list_all carries_fields (elements actix_http_test_impls)"
  by (simp add: actix_http_test_impls_def carries_fields_def)

lemma actix_multipart_fields: "list_all carries_fields (elements actix_multipart_impls)"
  by (simp add: actix_multipart_impls_def carries_fields_def)

lemma actix_web_fields: "list_all carries_fields (elements actix_web_impls)"
  by (simp add: actix_web_impls_def carries_fields_def)

lemma actix_web_actors_fields: "list_all carries_fields (elements actix_web_actors_impls)"
  by (simp add: actix_web_actors_impls_def carries_fields_def)

lemma awc_fields: "list_all carries_fields (elements awc_impls)"
  by (simp add: awc_impls_def carries_fields_def)

lemmas fields = actix_files_fields actix_http_fields actix_http_test_fields
  actix_multipart_fields actix_web_fields actix_web_actors_fields awc_fields

subsection \<open>Each record is a synthetic Freeze record\<close>

lemma actix_files_freeze: "list_all freeze_record (elements actix_files_impls)"
  by (simp add: actix_files_impls_def freeze_record_def)

lemma actix_http_freeze: "list_all freeze_record (elements actix_http_impls)"
  by (simp add: actix_http_impls_def freeze_record_def)

lemma actix_http_test_freeze: "list_all freeze_record (elements actix_http_test_impls)"
  by (simp add: actix_http_test_impls_def freeze_record_def)

lemma actix_multipart_freeze: "list_all freeze_record (elements actix_multipart_impls)"
  by (simp add: actix_multipart_impls_def freeze_record_def)

lemma actix_web_freeze: "list_all freeze_record (elements actix_web_impls)"
  by (simp add: actix_web_impls_def freeze_record_def)

lemma actix_web_actors_freeze: "list_all freeze_record (elements actix_web_actors_impls)"
  by (simp add: actix_web_actors_impls_def freeze_record_def)

lemma awc_freeze: "list_all freeze_record (elements awc_impls)"
  by (simp add: awc_impls_def freeze_record_def)

lemmas freeze = actix_files_freeze actix_http_freeze actix_http_test_freeze
  actix_multipart_freeze actix_web_freeze actix_web_actors_freeze awc_freeze

subsection \<open>Texts within one array\<close>

lemma actix_files_distinct: "distinct (texts actix_files_impls)"
  by (simp add: actix_files_impls_def texts_def)

lemma actix_http_test_distinct: "distinct (texts actix_http_test_impls)"
  by (simp add: actix_http_test_impls_def texts_def)

lemma actix_multipart_distinct: "distinct (texts actix_multipart_impls)"
  by (simp add: actix_multipart_impls_def texts_def)

lemma actix_web_distinct: "distinct (texts actix_web_impls)"
  by (simp add: actix_web_impls_def texts_def)

lemma actix_web_actors_distinct: "distinct (texts actix_web_actors_impls)"
  by (simp add: actix_web_actors_impls_def texts_def)

lemma awc_distinct: "distinct (texts awc_impls)"
  by (simp add: awc_impls_def texts_def)

lemmas distinct_texts = actix_files_distinct actix_http_test_distinct
  actix_multipart_distinct actix_web_distinct actix_web_actors_distinct awc_distinct

lemma actix_http_twice:
  "list_all (\<lambda>t. count_list (texts actix_http_impls) t = 2) repeated_texts"
  by (simp add: actix_http_impls_def texts_def repeated_texts_def)

lemma actix_http_others:
  "distinct (filter (\<lambda>t. t \<notin> set repeated_texts) (texts actix_http_impls))"
  by (simp add: actix_http_impls_def texts_def repeated_texts_def)

lemma actix_http_not_distinct: "\<not> distinct (texts actix_http_impls)"
  by (simp add: actix_http_impls_def texts_def)

lemma actix_http_protocol_twice:
  "count_list (texts actix_http_impls) (Str ''impl Freeze for Protocol'') = 2"
  by (simp add: actix_http_impls_def texts_def)

lemma get_actix_http: "get_prop implementors ''actix_http'' = actix_http_impls"
  by (simp add: implementors_eq)

section \<open>The run of the script\<close>

text \<open>The two branches of the last statement, in an environment with a window.\<close>

lemma run_script_truthy:
  assumes "window h = Some w" and "truthy (get_prop w ''register_implementors'')"
  shows "run_script h =
           \<lparr>completion =
              fst (call_op h (get_prop w ''register_implementors'') (Object implementors) w),
            window_after =
              Some (snd (call_op h (get_prop w ''register_implementors'')
                           (Object implementors) w)),
            trace = [Call (get_prop w ''register_implementors'') (Object implementors)]\<rparr>"
  using assms by (simp add: run_script_def Let_def case_prod_beta)

lemma run_script_falsy:
  assumes "window h = Some w" and "\<not> truthy (get_prop w ''register_implementors'')"
  shows "run_script h =
           \<lparr>completion = Normal,
            window_after =
              Some (put_prop ''pending_implementors'' (Object implementors) w),
            trace = [Assign ''pending_implementors'' (Object implementors)]\<rparr>"
  using assms by (simp add: run_script_def)

lemma call_op_not_function:
  "(\<forall>f. callee \<noteq> Function f) \<Longrightarrow> call_op h callee arg w = (Throw TypeError, w)"
  by (cases callee) simp_all

section \<open>The claims\<close>



text \<open>
  C2, as the file has it: for every crate key other than \<^verbatim>\<open>actix_http\<close> the texts of
  the crate's records are pairwise distinct; in the array of \<^verbatim>\<open>actix_http\<close> the three
  texts \<^verbatim>\<open>impl Freeze for Protocol\<close>, \<^verbatim>\<open>impl Freeze for Codec\<close> and
  \<^verbatim>\<open>impl Freeze for Payload\<close> occur twice each, and the other texts are pairwise distinct.
\<close>

theorem texts_distinct_but_actix_http:
  "(\<forall>(k, v) \<in> set implementors. k \<noteq> ''actix_http'' \<longrightarrow> distinct (texts v)) \<and>
   list_all (\<lambda>t. count_list (texts (get_prop implementors ''actix_http'')) t = 2)
     repeated_texts \<and>
   distinct (filter (\<lambda>t. t \<notin> set repeated_texts)
     (texts (get_prop implementors ''actix_http'')))"
proof -
  have "\<forall>(k, v) \<in> set implementors. k \<noteq> ''actix_http'' \<longrightarrow> distinct (texts v)"
    using distinct_texts by (simp add: implementors_eq)
  then show ?thesis
    using actix_http_twice actix_http_others by (simp only: get_actix_http simp_thms)
qed

theorem texts_distinct_but_actix_http_witness:
  "(''awc'', awc_impls) \<in> set implementors \<and> ''awc'' \<noteq> ''actix_http'' \<and>
   distinct (texts awc_impls)"
  using texts_distinct_but_actix_http by (simp add: implementors_eq)

text \<open>
  The claim C2 as stated, that the texts are pairwise distinct within every crate's
  array, fails for \<^verbatim>\<open>actix_http\<close>: the text \<^verbatim>\<open>impl Freeze for Protocol\<close> occurs
  twice there.
\<close>

theorem actix_http_texts_repeat:
  "(''actix_http'', get_prop implementors ''actix_http'') \<in> set implementors \<and>
   count_list (texts (get_prop implementors ''actix_http''))
     (Str ''impl Freeze for Protocol'') = 2 \<and>
   \<not> distinct (texts (get_prop implementors ''actix_http''))"
proof -
  have "(''actix_http'', actix_http_impls) \<in> set implementors"
    by (simp add: implementors_eq)
  then show ?thesis
    using actix_http_protocol_twice actix_http_not_distinct
    by (simp only: get_actix_http simp_thms)
qed

text \<open>
  C3, as the file has it: one evaluation writes into at most one registry slot and
  changes nothing else. Where \<^verbatim>\<open>window.register_implementors\<close> is a function, the
  script runs it once on \<open>implementors\<close> and assigns nothing; the window afterwards is as
  the function left it. Where the value is falsy, the script runs nothing and assigns
  \<^verbatim>\<open>window.pending_implementors\<close> once; every other property reads as before. Where
  the value is truthy and no function, the script does neither: the call throws a
  TypeError and the window is unchanged. Without a global \<^verbatim>\<open>window\<close> it does neither
  and stops with a ReferenceError.
\<close>

theorem at_most_one_registry_slot:
  "(window h = None \<longrightarrow>
      trace (run_script h) = [] \<and> window_after (run_script h) = None \<and>
      completion (run_script h) = Throw ReferenceError) \<and>
   (\<forall>w. window h = Some w \<longrightarrow>
      length (filter invocation (trace (run_script h))) +
        length (filter is_assign (trace (run_script h))) \<le> 1 \<and>
      (case get_prop w ''register_implementors'' of
         Function f \<Rightarrow>
           trace (run_script h) = [Call (Function f) (Object implementors)] \<and>
           length (filter invocation (trace (run_script h))) = 1 \<and>
           filter is_assign (trace (run_script h)) = [] \<and>
           completion (run_script h) = fst (behaviour h f (Object implementors) w) \<and>
           window_after (run_script h) =
             Some (snd (behaviour h f (Object implementors) w))
       | v \<Rightarrow>
           if truthy v then
             filter invocation (trace (run_script h)) = [] \<and>
             filter is_assign (trace (run_script h)) = [] \<and>
             completion (run_script h) = Throw TypeError \<and>
             window_after (run_script h) = Some w
           else
             trace (run_script h) =
               [Assign ''pending_implementors'' (Object implementors)] \<and>
             filter invocation (trace (run_script h)) = [] \<and>
             length (filter is_assign (trace (run_script h))) = 1 \<and>
             completion (run_script h) = Normal \<and>
             window_after (run_script h) =
               Some (put_prop ''pending_implementors'' (Object implementors) w) \<and>
             get_prop (put_prop ''pending_implementors'' (Object implementors) w)
               ''pending_implementors'' = Object implementors \<and>
             (\<forall>k. k \<noteq> ''pending_implementors'' \<longrightarrow>
                get_prop (put_prop ''pending_implementors'' (Object implementors) w) k =
                  get_prop w k)))"
proof (intro conjI impI allI)
  assume "window h = None"
  then show "trace (run_script h) = []" and "window_after (run_script h) = None"
    and "completion (run_script h) = Throw ReferenceError"
    by (simp_all add: run_script_def)
next
  fix w
  assume w: "window h = Some w"
  show "case get_prop w ''register_implementors'' of
         Function f \<Rightarrow>
           trace (run_script h) = [Call (Function f) (Object implementors)] \<and>
           length (filter invocation (trace (run_script h))) = 1 \<and>
           filter is_assign (trace (run_script h)) = [] \<and>
           completion (run_script h) = fst (behaviour h f (Object implementors) w) \<and>
           window_after (run_script h) =
             Some (snd (behaviour h f (Object implementors) w))
       | v \<Rightarrow>
           if truthy v then
             filter invocation (trace (run_script h)) = [] \<and>
             filter is_assign (trace (run_script h)) = [] \<and>
             completion (run_script h) = Throw TypeError \<and>
             window_after (run_script h) = Some w
           else
             trace (run_script h) =
               [Assign ''pending_implementors'' (Object implementors)] \<and>
             filter invocation (trace (run_script h)) = [] \<and>
             length (filter is_assign (trace (run_script h))) = 1 \<and>
             completion (run_script h) = Normal \<and>
             window_after (run_script h) =
               Some (put_prop ''pending_implementors'' (Object implementors) w) \<and>
             get_prop (put_prop ''pending_implementors'' (Object implementors) w)
               ''pending_implementors'' = Object implementors \<and>
             (\<forall>k. k \<noteq> ''pending_implementors'' \<longrightarrow>
                get_prop (put_prop ''pending_implementors'' (Object implementors) w) k =
                  get_prop w k)"
  proof (cases "truthy (get_prop w ''register_implementors'')")
    case True
    then show ?thesis
      using w
      by (cases "get_prop w ''register_implementors''")
         (simp_all add: run_script_truthy)
  next
    case False
    then show ?thesis
      using w
      by (cases "get_prop w ''register_implementors''")
         (simp_all add: run_script_falsy get_prop_put_prop)
  qed
  show "length (filter invocation (trace (run_script h))) +
        length (filter is_assign (trace (run_script h))) \<le> 1"
  proof (cases "truthy (get_prop w ''register_implementors'')")
    case True
    then show ?thesis
      using w
      by (cases "get_prop w ''register_implementors''")
         (simp_all add: run_script_truthy)
  next
    case False
    then show ?thesis
      using w by (simp add: run_script_falsy)
  qed
qed

theorem at_most_one_registry_slot_witness:
  "window viewer_host = Some [(''register_implementors'', Function 0)] \<and>
   trace (run_script viewer_host) = [Call (Function 0) (Object implementors)] \<and>
   filter is_assign (trace (run_script viewer_host)) = [] \<and>
   window_after (run_script viewer_host) =
     Some [(''register_implementors'', Function 0),
           (''all_implementors'', Object implementors)] \<and>
   window early_host = Some [(''currentCrate'', Str ''actix_http'')] \<and>
   trace (run_script early_host) =
     [Assign ''pending_implementors'' (Object implementors)] \<and>
   filter invocation (trace (run_script early_host)) = [] \<and>
   window_after (run_script early_host) =
     Some [(''currentCrate'', Str ''actix_http''),
           (''pending_implementors'', Object implementors)]"
proof -
  have v: "window viewer_host = Some [(''register_implementors'', Function 0)]"
    by (simp add: viewer_host_def)
  have e: "window early_host = Some [(''currentCrate'', Str ''actix_http'')]"
    by (simp add: early_host_def)
  have b: "behaviour viewer_host = keep_argument"
    by (simp add: viewer_host_def)
  show ?thesis
    using at_most_one_registry_slot [of viewer_host] at_most_one_registry_slot [of early_host]
    by (simp add: v e b keep_argument_def)
qed

text \<open>
  The claim C3 as stated, that every evaluation either invokes
  \<^verbatim>\<open>window.register_implementors\<close> or assigns \<^verbatim>\<open>window.pending_implementors\<close>,
  fails where \<^verbatim>\<open>window.register_implementors\<close> is \<^verbatim>\<open>true\<close>: no function runs,
  nothing is assigned, and the window is left as it was.
\<close>

theorem flag_host_neither:
  "window flag_host = Some [(''register_implementors'', Boolean True)] \<and>
   filter invocation (trace (run_script flag_host)) = [] \<and>
   filter is_assign (trace (run_script flag_host)) = [] \<and>
   completion (run_script flag_host) = Throw TypeError \<and>
   window_after (run_script flag_host) =
     Some [(''register_implementors'', Boolean True)]"
  by (simp add: flag_host_def run_script_def Let_def)

text \<open>
  C4: the value handed to the viewer is the object \<open>implementors\<close>; its keys are exactly
  the seven crates \<^verbatim>\<open>actix_files\<close>, \<^verbatim>\<open>actix_http\<close>, \<^verbatim>\<open>actix_http_test\<close>,
  \<^verbatim>\<open>actix_multipart\<close>, \<^verbatim>\<open>actix_web\<close>, \<^verbatim>\<open>actix_web_actors\<close> and \<^verbatim>\<open>awc\<close>, and each
  key maps to an array whose elements are objects.
\<close>

theorem handed_value_shape:
  assumes "window h = Some w"
  shows "map payload (trace (run_script h)) = [Object implementors] \<and>
         map fst implementors =
           [''actix_files'', ''actix_http'', ''actix_http_test'', ''actix_multipart'',
            ''actix_web'', ''actix_web_actors'', ''awc''] \<and>
         (\<forall>(k, v) \<in> set implementors. is_array v \<and> list_all is_object (elements v))"
proof -
  have "map payload (trace (run_script h)) = [Object implementors]"
    using assms
    by (cases "truthy (get_prop w ''register_implementors'')")
       (simp_all add: run_script_truthy run_script_falsy)
  moreover have "map fst implementors =
      [''actix_files'', ''actix_http'', ''actix_http_test'', ''actix_multipart'',
       ''actix_web'', ''actix_web_actors'', ''awc'']"
    by (simp add: implementors_eq)
  moreover have "\<forall>(k, v) \<in> set implementors. is_array v \<and> list_all is_object (elements v)"
    by (simp add: implementors_eq objects)
  ultimately show ?thesis by blast
qed

theorem handed_value_shape_witness:
  "window early_host = Some [(''currentCrate'', Str ''actix_http'')] \<and>
   map payload (trace (run_script early_host)) = [Object implementors] \<and>
   (''awc'', awc_impls) \<in> set implementors \<and> is_array awc_impls \<and>
   list_all is_object (elements awc_impls)"
  using handed_value_shape [of early_host "[(''currentCrate'', Str ''actix_http'')]"]
  by (simp add: early_host_def implementors_eq)

text \<open>
  C5: every record of every crate's array carries the three fields of the data model:
  the string \<^verbatim>\<open>text\<close>, the boolean \<^verbatim>\<open>synthetic\<close> and the array \<^verbatim>\<open>types\<close>.
\<close>

theorem records_carry_fields:
  "\<forall>(k, v) \<in> set implementors. \<forall>r \<in> set (elements v). carries_fields r"
  using fields by (simp add: implementors_eq list_all_iff)

theorem records_carry_fields_witness:
  "(''actix_http_test'', actix_http_test_impls) \<in> set implementors \<and>
   Object [(''text'', Str ''impl Freeze for TestServer''), (''synthetic'', Boolean True),
           (''types'', Array [])] \<in> set (elements actix_http_test_impls) \<and>
   carries_fields
     (Object [(''text'', Str ''impl Freeze for TestServer''), (''synthetic'', Boolean True),
              (''types'', Array [])])"
  using records_carry_fields by (simp add: implementors_eq actix_http_test_impls_def)

text \<open>
  C6, as the file has it: in an environment with a window the script completes without
  throwing exactly when \<^verbatim>\<open>window.register_implementors\<close> is falsy or is a function
  whose call returns normally; the run is the one hand-off and nothing else. Where the
  value is truthy and no function, the script throws a TypeError and leaves the window
  as it was; where the value is a function, the script completes as the function does,
  so what the function throws, the script throws.
\<close>

theorem completes_normally_iff:
  assumes "window h = Some w"
  shows "(completion (run_script h) = Normal \<longleftrightarrow>
            (\<not> truthy (get_prop w ''register_implementors'') \<or>
             (\<exists>f. get_prop w ''register_implementors'' = Function f \<and>
                  fst (behaviour h f (Object implementors) w) = Normal))) \<and>
         length (trace (run_script h)) = 1 \<and>
         (truthy (get_prop w ''register_implementors'') \<and>
          (\<forall>f. get_prop w ''register_implementors'' \<noteq> Function f) \<longrightarrow>
            completion (run_script h) = Throw TypeError \<and>
            window_after (run_script h) = Some w) \<and>
         (\<forall>f. get_prop w ''register_implementors'' = Function f \<longrightarrow>
            completion (run_script h) = fst (behaviour h f (Object implementors) w))"
proof (cases "truthy (get_prop w ''register_implementors'')")
  case True
  show ?thesis
  proof (cases "\<exists>f. get_prop w ''register_implementors'' = Function f")
    case True
    then show ?thesis
      using assms \<open>truthy (get_prop w ''register_implementors'')\<close>
      by (auto simp add: run_script_truthy)
  next
    case False
    then have "call_op h (get_prop w ''register_implementors'') (Object implementors) w =
        (Throw TypeError, w)"
      by (simp add: call_op_not_function)
    then show ?thesis
      using assms False \<open>truthy (get_prop w ''register_implementors'')\<close>
      by (simp add: run_script_truthy)
  qed
next
  case False
  then have "\<forall>f. get_prop w ''register_implementors'' \<noteq> Function f"
    by auto
  then show ?thesis
    using assms False by (simp add: run_script_falsy)
qed

theorem completes_normally_iff_witness:
  "window viewer_host = Some [(''register_implementors'', Function 0)] \<and>
   completion (run_script viewer_host) = Normal \<and>
   length (trace (run_script viewer_host)) = 1 \<and>
   window throwing_host = Some [(''register_implementors'', Function 0)] \<and>
   completion (run_script throwing_host) = Throw (Thrown (Str ''not ready'')) \<and>
   window number_host = Some [(''register_implementors'', Number 1)] \<and>
   truthy (Number 1) \<and>
   completion (run_script number_host) = Throw TypeError \<and>
   window_after (run_script number_host) = Some [(''register_implementors'', Number 1)]"
proof -
  have v: "window viewer_host = Some [(''register_implementors'', Function 0)]"
    "behaviour viewer_host = keep_argument"
    by (simp_all add: viewer_host_def)
  have t: "window throwing_host = Some [(''register_implementors'', Function 0)]"
    "behaviour throwing_host = always_throws"
    by (simp_all add: throwing_host_def)
  have n: "window number_host = Some [(''register_implementors'', Number 1)]"
    by (simp add: number_host_def)
  show ?thesis
    using completes_normally_iff [OF v(1)] completes_normally_iff [OF t(1)]
      completes_normally_iff [OF n]
    by (simp add: v t n keep_argument_def always_throws_def)
qed

text \<open>
  The claim C6 as stated, that the script cannot throw in any environment with a window,
  fails where \<^verbatim>\<open>window.register_implementors\<close> is the number 1: the value is truthy
  and is not a function, and the call throws a TypeError.
\<close>

theorem number_host_throws:
  "window number_host = Some [(''register_implementors'', Number 1)] \<and>
   completion (run_script number_host) = Throw TypeError"
  by (simp add: number_host_def run_script_def Let_def)

text \<open>
  C7: the object handed off or stored does not depend on the environment: any two
  evaluations in environments with a window hand off the same value, the constant
  \<open>implementors\<close>, and an evaluation hands it off once.
\<close>

theorem hand_off_constant:
  assumes "window h1 = Some w1" and "window h2 = Some w2"
  shows "map payload (trace (run_script h1)) = map payload (trace (run_script h2)) \<and>
         map payload (trace (run_script h1)) = [Object implementors]"
proof -
  have "map payload (trace (run_script h)) = [Object implementors]"
    if "window h = Some w" for h w
    using that
    by (cases "truthy (get_prop w ''register_implementors'')")
       (simp_all add: run_script_truthy run_script_falsy)
  then show ?thesis
    using assms by simp
qed

theorem hand_off_constant_witness:
  "window viewer_host = Some [(''register_implementors'', Function 0)] \<and>
   window early_host = Some [(''currentCrate'', Str ''actix_http'')] \<and>
   map payload (trace (run_script viewer_host)) =
     map payload (trace (run_script early_host)) \<and>
   map payload (trace (run_script viewer_host)) = [Object implementors]"
proof -
  have v: "window viewer_host = Some [(''register_implementors'', Function 0)]"
    by (simp add: viewer_host_def)
  have e: "window early_host = Some [(''currentCrate'', Str ''actix_http'')]"
    by (simp add: early_host_def)
  show ?thesis
    using hand_off_constant [OF v e] v e by auto
qed

text \<open>
  C8: where \<^verbatim>\<open>window.register_implementors\<close> is absent or falsy, the script makes no
  call; it completes normally and afterwards \<^verbatim>\<open>window.pending_implementors\<close> holds the
  object \<open>implementors\<close>.
\<close>

theorem pending_when_unregistered:
  assumes "window h = Some w"
    and "''register_implementors'' \<notin> fst ` set w \<or>
         \<not> truthy (get_prop w ''register_implementors'')"
  shows "completion (run_script h) = Normal \<and>
         trace (run_script h) = [Assign ''pending_implementors'' (Object implementors)] \<and>
         filter is_call (trace (run_script h)) = [] \<and>
         window_after (run_script h) =
           Some (put_prop ''pending_implementors'' (Object implementors) w) \<and>
         get_prop (put_prop ''pending_implementors'' (Object implementors) w)
           ''pending_implementors'' = Object implementors"
proof -
  have "\<not> truthy (get_prop w ''register_implementors'')"
    using assms(2) get_prop_absent [of "''register_implementors''" w] by auto
  then show ?thesis
    using assms(1) by (simp add: run_script_falsy get_prop_put_prop)
qed

theorem pending_when_unregistered_witness:
  "window early_host = Some [(''currentCrate'', Str ''actix_http'')] \<and>
   ''register_implementors'' \<notin> fst ` set [(''currentCrate'', Str ''actix_http'')] \<and>
   completion (run_script early_host) = Normal \<and>
   filter is_call (trace (run_script early_host)) = [] \<and>
   window_after (run_script early_host) =
     Some [(''currentCrate'', Str ''actix_http''),
           (''pending_implementors'', Object implementors)]"
  using pending_when_unregistered
    [of early_host "[(''currentCrate'', Str ''actix_http'')]"]
  by (simp add: early_host_def)

text \<open>
  C9: every record of every crate's array has \<^verbatim>\<open>synthetic\<close> equal to \<^verbatim>\<open>true\<close>,
  \<^verbatim>\<open>types\<close> equal to the empty array, and a \<^verbatim>\<open>text\<close> that contains
  \<^verbatim>\<open>Freeze for\<close> or \<^verbatim>\<open>!Freeze for\<close>.
\<close>

theorem records_are_synthetic_freeze:
  "\<forall>(k, v) \<in> set implementors. \<forall>r \<in> set (elements v). freeze_record r"
  using freeze by (simp add: implementors_eq list_all_iff)

theorem records_are_synthetic_freeze_witness:
  "(''actix_multipart'', actix_multipart_impls) \<in> set implementors \<and>
   Object [(''text'', Str ''impl !Freeze for Field''), (''synthetic'', Boolean True),
           (''types'', Array [])] \<in> set (elements actix_multipart_impls) \<and>
   freeze_record
     (Object [(''text'', Str ''impl !Freeze for Field''), (''synthetic'', Boolean True),
              (''types'', Array [])])"
  using records_are_synthetic_freeze
  by (simp add: implementors_eq actix_multipart_impls_def)

text \<open>
  C10: each of the seven crate keys maps to a non-empty array.
\<close>

theorem crates_nonempty:
  "length implementors = 7 \<and>
   (\<forall>(k, v) \<in> set implementors. is_array v \<and> elements v \<noteq> [])"
  using nonempty objects by (simp add: implementors_eq)

theorem crates_nonempty_witness:
  "(''actix_http_test'', actix_http_test_impls) \<in> set implementors \<and>
   is_array actix_http_test_impls \<and> elements actix_http_test_impls \<noteq> []"
  using crates_nonempty by (simp add: implementors_eq)

end
